theory Spec2Isabelle
  imports Main
begin

text \<open>
  A model of the user service of \<^verbatim>\<open>main.go\<close>: the \<^verbatim>\<open>User\<close> struct and its validation, the
  five data-access functions over table \<^verbatim>\<open>users\<close>, and the five HTTP handlers. What the
  program takes from libraries (\<^verbatim>\<open>regexp\<close>, \<^verbatim>\<open>strconv\<close>, \<^verbatim>\<open>encoding/json\<close>, \<^verbatim>\<open>net/http\<close>,
  \<^verbatim>\<open>database/sql\<close>, \<^verbatim>\<open>mux\<close>) is modelled as far as the handlers observe it. The
  definitions come first, then the lemmas about them, then the claims.
\<close>

section \<open>Entity model\<close>

text \<open>
  The struct \<^verbatim>\<open>User\<close> of \<^verbatim>\<open>main.go\<close>. Strings are byte strings, as Go's are.
\<close>

record User =
  ID :: int
  Name :: string
  Email :: string

section \<open>Regular expressions\<close>

text \<open>
  The fragment of the syntax of Go's \<^verbatim>\<open>regexp\<close> package that the pattern of
  \<^verbatim>\<open>isValidEmail\<close> uses: literal characters, bracket classes made of ranges and single
  characters, concatenation, \<^verbatim>\<open>x+\<close> and \<^verbatim>\<open>x{n,}\<close>. \<open>Null\<close>, \<open>Eps\<close>, \<open>Alt\<close> and \<open>Star\<close>
  are there for the matcher, whose residual expressions need them.
\<close>

type_synonym char_class = "(char \<times> char) list"

datatype regex =
    Null
  | Eps
  | Lit char
  | Class char_class
  | Alt regex regex
  | Seq regex regex
  | Star regex
  | Plus regex
  | AtLeast nat regex

text \<open>A class is a list of inclusive byte ranges; a single character \<open>c\<close> is the range \<open>(c, c)\<close>.\<close>

definition in_range :: "char \<times> char \<Rightarrow> char \<Rightarrow> bool" where
  "in_range r c = ((of_char (fst r) :: nat) \<le> of_char c \<and> (of_char c :: nat) \<le> of_char (snd r))"

definition in_class :: "char_class \<Rightarrow> char \<Rightarrow> bool" where
  "in_class cls c = list_ex (\<lambda>r. in_range r c) cls"

subsection \<open>What a regular expression denotes\<close>

definition conc :: "string set \<Rightarrow> string set \<Rightarrow> string set" where
  "conc A B = {u @ v | u v. u \<in> A \<and> v \<in> B}"

inductive_set star :: "string set \<Rightarrow> string set" for A :: "string set" where
  star_empty: "[] \<in> star A"
| star_step: "u \<in> A \<Longrightarrow> v \<in> star A \<Longrightarrow> u @ v \<in> star A"

text \<open>\<open>n\<close> or more words of \<open>A\<close> in a row.\<close>

fun at_least :: "nat \<Rightarrow> string set \<Rightarrow> string set" where
  "at_least 0 A = star A"
| "at_least (Suc n) A = conc A (at_least n A)"

fun lang :: "regex \<Rightarrow> string set" where
  "lang Null = {}"
| "lang Eps = {[]}"
| "lang (Lit c) = {[c]}"
| "lang (Class cls) = {[c] | c. in_class cls c}"
| "lang (Alt r s) = lang r \<union> lang s"
| "lang (Seq r s) = conc (lang r) (lang s)"
| "lang (Star r) = star (lang r)"
| "lang (Plus r) = conc (lang r) (star (lang r))"
| "lang (AtLeast n r) = at_least n (lang r)"

subsection \<open>The matcher\<close>

text \<open>
  \<^verbatim>\<open>MatchString\<close> on a pattern anchored by \<^verbatim>\<open>^\<close> and \<^verbatim>\<open>$\<close> (no flags, so \<^verbatim>\<open>$\<close> is the end of
  the text) decides whether the whole string is matched by the expression between the
  anchors. The matcher consumes the string one character at a time, keeping the
  expression that the rest still has to match.
\<close>

fun nullable :: "regex \<Rightarrow> bool" where
  "nullable Null = False"
| "nullable Eps = True"
| "nullable (Lit c) = False"
| "nullable (Class cls) = False"
| "nullable (Alt r s) = (nullable r \<or> nullable s)"
| "nullable (Seq r s) = (nullable r \<and> nullable s)"
| "nullable (Star r) = True"
| "nullable (Plus r) = nullable r"
| "nullable (AtLeast n r) = (n = 0 \<or> nullable r)"

fun residual :: "char \<Rightarrow> regex \<Rightarrow> regex" where
  "residual c Null = Null"
| "residual c Eps = Null"
| "residual c (Lit d) = (if c = d then Eps else Null)"
| "residual c (Class cls) = (if in_class cls c then Eps else Null)"
| "residual c (Alt r s) = Alt (residual c r) (residual c s)"
| "residual c (Seq r s) =
     (if nullable r then Alt (Seq (residual c r) s) (residual c s)
      else Seq (residual c r) s)"
| "residual c (Star r) = Seq (residual c r) (Star r)"
| "residual c (Plus r) = Seq (residual c r) (Star r)"
| "residual c (AtLeast n r) = Seq (residual c r) (AtLeast (n - 1) r)"

fun MatchString :: "regex \<Rightarrow> string \<Rightarrow> bool" where
  "MatchString re [] = nullable re"
| "MatchString re (c # cs) = MatchString (residual c re) cs"

section \<open>Validation\<close>

text \<open>
  The pattern
  \<^verbatim>\<open>^[a-zA-Z0-9._%+-]+@[a-zA-Z0-9.-]+\.[a-zA-Z]{2,}$\<close>
  of \<^verbatim>\<open>isValidEmail\<close>, between its anchors.
\<close>

definition local_class :: char_class where
  "local_class =
     [(CHR ''a'', CHR ''z''), (CHR ''A'', CHR ''Z''), (CHR ''0'', CHR ''9''),
      (CHR ''.'', CHR ''.''), (CHR ''_'', CHR ''_''), (CHR ''%'', CHR ''%''),
      (CHR ''+'', CHR ''+''), (CHR ''-'', CHR ''-'')]"

definition domain_class :: char_class where
  "domain_class =
     [(CHR ''a'', CHR ''z''), (CHR ''A'', CHR ''Z''), (CHR ''0'', CHR ''9''),
      (CHR ''.'', CHR ''.''), (CHR ''-'', CHR ''-'')]"

definition letter_class :: char_class where
  "letter_class = [(CHR ''a'', CHR ''z''), (CHR ''A'', CHR ''Z'')]"

definition email_pattern :: regex where
  "email_pattern =
     Seq (Plus (Class local_class))
       (Seq (Lit CHR ''@'')
         (Seq (Plus (Class domain_class))
           (Seq (Lit CHR ''.'') (AtLeast 2 (Class letter_class)))))"

definition isValidEmail :: "string \<Rightarrow> bool" where
  "isValidEmail email = MatchString email_pattern email"

text \<open>
  \<^verbatim>\<open>Validate\<close> returns \<^verbatim>\<open>nil\<close> (\<open>None\<close>) or an error made by \<^verbatim>\<open>fmt.Errorf\<close>, given here by
  its message.
\<close>

definition Validate :: "User \<Rightarrow> string option" where
  "Validate u =
     (if Name u = [] then Some ''name is required''
      else if Email u = [] then Some ''email is required''
      else if \<not> isValidEmail (Email u) then Some ''invalid email format''
      else None)"

section \<open>Path identifiers\<close>

text \<open>
  \<^verbatim>\<open>strconv.Atoi\<close> on a platform whose \<^verbatim>\<open>int\<close> has 64 bits: \<^verbatim>\<open>ParseInt(s, 10, 0)\<close>, which
  strips one sign and hands the rest to \<^verbatim>\<open>ParseUint(s, 10, 64)\<close>. (\<^verbatim>\<open>Atoi\<close> has a fast path
  for short strings that returns the same results.) Base 10 allows no underscores and no
  letters.
\<close>

datatype num_error = ErrSyntax | ErrRange

definition is_digit :: "char \<Rightarrow> bool" where
  "is_digit c = in_range (CHR ''0'', CHR ''9'') c"

definition digit_val :: "char \<Rightarrow> nat" where
  "digit_val c = of_char c - of_char CHR ''0''"

definition maxUint64 :: nat where
  "maxUint64 = 2 ^ 64 - 1"

text \<open>
  The loop of \<^verbatim>\<open>ParseUint\<close>. In Go \<open>n * 10 + d\<close> is computed in \<^verbatim>\<open>uint64\<close> and the test is
  \<^verbatim>\<open>n1 < n || n1 > maxVal\<close>; below the cutoff the product cannot wrap, and the sum wraps
  exactly when it exceeds \<open>maxUint64\<close>.
\<close>

fun scan_digits :: "nat \<Rightarrow> string \<Rightarrow> num_error + nat" where
  "scan_digits n [] = Inr n"
| "scan_digits n (c # cs) =
     (if \<not> is_digit c then Inl ErrSyntax
      else if maxUint64 div 10 + 1 \<le> n then Inl ErrRange
      else if maxUint64 < n * 10 + digit_val c then Inl ErrRange
      else scan_digits (n * 10 + digit_val c) cs)"

definition ParseUint :: "string \<Rightarrow> num_error + nat" where
  "ParseUint s = (if s = [] then Inl ErrSyntax else scan_digits 0 s)"

definition ParseInt :: "string \<Rightarrow> num_error + int" where
  "ParseInt s0 =
     (case s0 of
        [] \<Rightarrow> Inl ErrSyntax
      | c # t \<Rightarrow>
          let neg = (c = CHR ''-'');
              s = (if c = CHR ''+'' \<or> c = CHR ''-'' then t else s0)
          in (case ParseUint s of
                Inl e \<Rightarrow> Inl e
              | Inr un \<Rightarrow>
                  if \<not> neg \<and> 2 ^ 63 \<le> un then Inl ErrRange
                  else if neg \<and> 2 ^ 63 < un then Inl ErrRange
                  else Inr (if neg then - int un else int un)))"

definition Atoi :: "string \<Rightarrow> num_error + int" where
  "Atoi s = ParseInt s"

text \<open>
  The integer that a signed decimal numeral denotes: an optional \<^verbatim>\<open>+\<close> or \<^verbatim>\<open>-\<close>, then one
  or more digits. \<open>None\<close> for any other string.
\<close>

definition dec_value :: "string \<Rightarrow> nat" where
  "dec_value ds = foldl (\<lambda>n c. n * 10 + digit_val c) 0 ds"

definition signed_decimal :: "string \<Rightarrow> int option" where
  "signed_decimal s =
     (case s of
        [] \<Rightarrow> None
      | c # t \<Rightarrow>
          let ds = (if c = CHR ''+'' \<or> c = CHR ''-'' then t else s)
          in if ds \<noteq> [] \<and> list_all is_digit ds
             then Some (if c = CHR ''-'' then - int (dec_value ds) else int (dec_value ds))
             else None)"

section \<open>Requests and responses\<close>

text \<open>
  Of a request the handlers read the route variables (\<^verbatim>\<open>mux.Vars(r)\<close>) and the body, the
  latter only through \<^verbatim>\<open>json.NewDecoder(r.Body).Decode(&user)\<close>. The decoder is not part of
  the repository: its outcome on the body, an error or the \<^verbatim>\<open>User\<close> it filled in, is a
  field of the request.
\<close>

record Request =
  vars :: "string \<rightharpoonup> string"
  Body_Decode :: "string + User"

text \<open>Reading a missing key of a Go map gives the zero value, the empty string.\<close>

definition parseID :: "Request \<Rightarrow> num_error + int" where
  "parseID r = Atoi (case vars r ''id'' of None \<Rightarrow> [] | Some s \<Rightarrow> s)"

text \<open>
  JSON documents as \<^verbatim>\<open>encoding/json\<close> produces them for the values the handlers encode.
  A struct is an object with its fields in declaration order, under their tags; a slice
  is an array, except that a nil slice is \<^verbatim>\<open>null\<close>.
\<close>

datatype json = JNull | JNumber int | JString string | JArray "json list" | JObject "(string \<times> json) list"

datatype 'a slice = NilSlice | Slice "'a list"

fun append_slice :: "'a slice \<Rightarrow> 'a \<Rightarrow> 'a slice" where
  "append_slice NilSlice x = Slice [x]"
| "append_slice (Slice xs) x = Slice (xs @ [x])"

fun len :: "'a slice \<Rightarrow> nat" where
  "len NilSlice = 0"
| "len (Slice xs) = length xs"

definition marshal_User :: "User \<Rightarrow> json" where
  "marshal_User u =
     JObject [(''id'', JNumber (ID u)), (''name'', JString (Name u)), (''email'', JString (Email u))]"

fun marshal_Users :: "User slice \<Rightarrow> json" where
  "marshal_Users NilSlice = JNull"
| "marshal_Users (Slice us) = JArray (map marshal_User us)"

text \<open>
  The \<^verbatim>\<open>http.ResponseWriter\<close>: the header map, the status code once it has been written,
  and what was written to the body, in order. A JSON document written by an encoder is
  kept as a document (the encoder ends it with a newline). The handlers set headers only
  before the first write. \<^verbatim>\<open>http.Error\<close> sets the two headers below, writes the status and
  prints the message as a line.
\<close>

datatype chunk = Text string | Json json

record ResponseWriter =
  Header :: "string \<rightharpoonup> string"
  status :: "nat option"
  written :: "chunk list"

definition Header_Set :: "string \<Rightarrow> string \<Rightarrow> ResponseWriter \<Rightarrow> ResponseWriter" where
  "Header_Set k v w = w\<lparr>Header := (Header w)(k \<mapsto> v)\<rparr>"

definition WriteHeader :: "nat \<Rightarrow> ResponseWriter \<Rightarrow> ResponseWriter" where
  "WriteHeader code w = (if status w = None then w\<lparr>status := Some code\<rparr> else w)"

definition Write :: "chunk \<Rightarrow> ResponseWriter \<Rightarrow> ResponseWriter" where
  "Write c w = (let w' = WriteHeader 200 w in w'\<lparr>written := written w' @ [c]\<rparr>)"

definition Fprintln :: "ResponseWriter \<Rightarrow> string \<Rightarrow> ResponseWriter" where
  "Fprintln w s = Write (Text (s @ [CHR 0x0A])) w"

definition Encode :: "json \<Rightarrow> ResponseWriter \<Rightarrow> ResponseWriter" where
  "Encode j w = Write (Json j) w"

definition http_Error :: "ResponseWriter \<Rightarrow> string \<Rightarrow> nat \<Rightarrow> ResponseWriter" where
  "http_Error w msg code =
     Fprintln
       (WriteHeader code
         (Header_Set ''X-Content-Type-Options'' ''nosniff''
           (Header_Set ''Content-Type'' ''text/plain; charset=utf-8'' w)))
       msg"

text \<open>The status line the client receives: 200 when the handler wrote none.\<close>

definition status_code :: "ResponseWriter \<Rightarrow> nat" where
  "status_code w = (case status w of None \<Rightarrow> 200 | Some c \<Rightarrow> c)"

text \<open>The writer a handler is given.\<close>

definition fresh :: ResponseWriter where
  "fresh = \<lparr>Header = Map.empty, status = None, written = []\<rparr>"

section \<open>The store\<close>

text \<open>
  The five statements the program sends, each with its bound parameters:
  \<^verbatim>\<open>SELECT id, name, email FROM users\<close>,
  \<^verbatim>\<open>INSERT INTO users (name, email) VALUES (?, ?)\<close>,
  \<^verbatim>\<open>SELECT id, name, email FROM users WHERE id = ?\<close>,
  \<^verbatim>\<open>UPDATE users SET name = ?, email = ? WHERE id = ?\<close> and
  \<^verbatim>\<open>DELETE FROM users WHERE id = ?\<close>.
\<close>

datatype stmt =
    SelectAll
  | Insert string string
  | SelectWhereId int
  | UpdateWhereId string string int
  | DeleteWhereId int

datatype db_error = ErrNoRows | DriverError string

datatype event = Opened | Closed | Ran stmt

text \<open>
  The database as the program sees it through \<^verbatim>\<open>database/sql\<close>: the rows of table
  \<^verbatim>\<open>users\<close>, and what the driver and the server do beyond the program's control, namely
  whether \<^verbatim>\<open>sql.Open\<close> fails, which statements fail, and whether a result set breaks
  off after some rows (reported by \<^verbatim>\<open>rows.Err\<close>). The journal records every handle opened
  or closed and every statement sent, in order.
\<close>

record DB =
  users :: "User list"
  auto_increment :: int
  open_error :: "string option"
  fault :: "stmt \<Rightarrow> string option"
  rows_break :: "(nat \<times> string) option"
  journal :: "event list"

definition record_event :: "event \<Rightarrow> DB \<Rightarrow> DB" where
  "record_event ev db = db\<lparr>journal := journal db @ [ev]\<rparr>"

text \<open>\<^verbatim>\<open>dbConnection\<close>: \<^verbatim>\<open>sql.Open\<close> returns a handle or an error.\<close>

definition dbConnection :: "DB \<Rightarrow> string option \<times> DB" where
  "dbConnection db =
     (case open_error db of
        Some e \<Rightarrow> (Some e, db)
      | None \<Rightarrow> (None, record_event Opened db))"

definition Close :: "DB \<Rightarrow> DB" where
  "Close db = record_event Closed db"

text \<open>
  Modelled from the spec: the schema of table \<^verbatim>\<open>users\<close> is not in the repository; the
  spec gives \<^verbatim>\<open>users(id PRIMARY KEY AUTOINCREMENT, name, email)\<close>. An insert appends a row
  whose id is the counter's value; an update rewrites name and email of the rows whose
  id is the parameter; a delete removes those rows; a select changes nothing.
\<close>

fun apply_stmt :: "stmt \<Rightarrow> DB \<Rightarrow> DB" where
  "apply_stmt SelectAll db = db"
| "apply_stmt (SelectWhereId i) db = db"
| "apply_stmt (Insert n e) db =
     db\<lparr>users := users db @ [\<lparr>ID = auto_increment db, Name = n, Email = e\<rparr>],
        auto_increment := auto_increment db + 1\<rparr>"
| "apply_stmt (UpdateWhereId n e i) db =
     db\<lparr>users := map (\<lambda>u. if ID u = i then u\<lparr>Name := n, Email := e\<rparr> else u) (users db)\<rparr>"
| "apply_stmt (DeleteWhereId i) db =
     db\<lparr>users := filter (\<lambda>u. ID u \<noteq> i) (users db)\<rparr>"

text \<open>\<^verbatim>\<open>db.Exec\<close>: the error of the call, and the database afterwards.\<close>

definition Exec :: "stmt \<Rightarrow> DB \<Rightarrow> db_error option \<times> DB" where
  "Exec st db =
     (case fault db st of
        Some e \<Rightarrow> (Some (DriverError e), record_event (Ran st) db)
      | None \<Rightarrow> (None, apply_stmt st (record_event (Ran st) db)))"

text \<open>
  \<^verbatim>\<open>db.Query\<close> for the select of all users: an error, or the rows that the loop over
  \<^verbatim>\<open>rows.Next\<close> will see together with what \<^verbatim>\<open>rows.Err\<close> reports after it.
\<close>

definition Query :: "DB \<Rightarrow> (db_error + User list \<times> db_error option) \<times> DB" where
  "Query db =
     (case fault db SelectAll of
        Some e \<Rightarrow> (Inl (DriverError e), record_event (Ran SelectAll) db)
      | None \<Rightarrow>
          (Inr (case rows_break db of
                  None \<Rightarrow> (users db, None)
                | Some (n, e) \<Rightarrow> (take n (users db), Some (DriverError e))),
           record_event (Ran SelectAll) db))"

text \<open>
  \<^verbatim>\<open>db.QueryRow(...).Scan(...)\<close>: the first row with the id, \<^verbatim>\<open>sql.ErrNoRows\<close> when there is
  none, or the error of the query.
\<close>

definition QueryRow_Scan :: "int \<Rightarrow> DB \<Rightarrow> (db_error + User) \<times> DB" where
  "QueryRow_Scan i db =
     (case fault db (SelectWhereId i) of
        Some e \<Rightarrow> (Inl (DriverError e), record_event (Ran (SelectWhereId i)) db)
      | None \<Rightarrow>
          (case find (\<lambda>u. ID u = i) (users db) of
             None \<Rightarrow> (Inl ErrNoRows, record_event (Ran (SelectWhereId i)) db)
           | Some u \<Rightarrow> (Inr u, record_event (Ran (SelectWhereId i)) db)))"

section \<open>Data access\<close>

text \<open>
  The loop of \<^verbatim>\<open>GetAllUsers\<close>: \<^verbatim>\<open>users\<close> starts as the nil slice and grows by \<^verbatim>\<open>append\<close>.
  Rows are typed (an integer and two strings), so \<^verbatim>\<open>rows.Scan\<close> has nothing to reject; an
  error of the result set shows in \<^verbatim>\<open>rows.Err\<close> after the loop. \<^verbatim>\<open>defer rows.Close()\<close>
  releases the result set, not the handle, and is not tracked.
\<close>

fun scan_rows :: "User list \<Rightarrow> User slice \<Rightarrow> User slice" where
  "scan_rows [] acc = acc"
| "scan_rows (row # rows) acc = scan_rows rows (append_slice acc row)"

definition GetAllUsers :: "DB \<Rightarrow> (db_error + User slice) \<times> DB" where
  "GetAllUsers db =
     (case Query db of
        (Inl err, db') \<Rightarrow> (Inl err, db')
      | (Inr (rows, rows_Err), db') \<Rightarrow>
          (let userlist = scan_rows rows NilSlice
           in case rows_Err of
                Some err \<Rightarrow> (Inl err, db')
              | None \<Rightarrow> (Inr userlist, db')))"

definition CreateUser :: "DB \<Rightarrow> string \<Rightarrow> string \<Rightarrow> db_error option \<times> DB" where
  "CreateUser db name email = Exec (Insert name email) db"

definition GetUser :: "DB \<Rightarrow> int \<Rightarrow> (db_error + User) \<times> DB" where
  "GetUser db i = QueryRow_Scan i db"

definition UpdateUser :: "DB \<Rightarrow> int \<Rightarrow> string \<Rightarrow> string \<Rightarrow> db_error option \<times> DB" where
  "UpdateUser db i name email = Exec (UpdateWhereId name email i) db"

definition DeleteUser :: "DB \<Rightarrow> int \<Rightarrow> db_error option \<times> DB" where
  "DeleteUser db i = Exec (DeleteWhereId i) db"

section \<open>Handlers\<close>

text \<open>
  A handler takes the response writer, the request and the database, and leaves the
  writer and the database changed. \<^verbatim>\<open>defer db.Close()\<close> runs \<^verbatim>\<open>Close\<close> when the rest of the
  handler returns, whichever \<^verbatim>\<open>return\<close> it takes.
\<close>

definition defer_Close :: "(DB \<Rightarrow> ResponseWriter \<times> DB) \<Rightarrow> DB \<Rightarrow> ResponseWriter \<times> DB" where
  "defer_Close rest db = (case rest db of (w, db') \<Rightarrow> (w, Close db'))"

definition getAllUsersHandler :: "ResponseWriter \<Rightarrow> Request \<Rightarrow> DB \<Rightarrow> ResponseWriter \<times> DB" where
  "getAllUsersHandler w r db0 =
     (case dbConnection db0 of
        (Some err, db1) \<Rightarrow> (http_Error w ''Failed to connect to the database'' 500, db1)
      | (None, db1) \<Rightarrow>
          defer_Close (\<lambda>db.
            case GetAllUsers db of
              (Inl err, db') \<Rightarrow> (http_Error w ''User not found'' 404, db')
            | (Inr user, db') \<Rightarrow>
                (Encode (marshal_Users user) (Header_Set ''Content-Type'' ''application/json'' w), db'))
          db1)"

definition createUserHandler :: "ResponseWriter \<Rightarrow> Request \<Rightarrow> DB \<Rightarrow> ResponseWriter \<times> DB" where
  "createUserHandler w r db0 =
     (case dbConnection db0 of
        (Some err, db1) \<Rightarrow> (http_Error w ''Failed to connect to the database'' 500, db1)
      | (None, db1) \<Rightarrow>
          defer_Close (\<lambda>db.
            case Body_Decode r of
              Inl err \<Rightarrow> (http_Error w ''Invalid input'' 400, db)
            | Inr user \<Rightarrow>
                (case Validate user of
                   Some msg \<Rightarrow> (http_Error w msg 400, db)
                 | None \<Rightarrow>
                     (case CreateUser db (Name user) (Email user) of
                        (Some err, db') \<Rightarrow> (http_Error w ''Failed to create user'' 500, db')
                      | (None, db') \<Rightarrow>
                          (Fprintln (WriteHeader 201 w) ''User created successfully'', db'))))
          db1)"

definition getUserHandler :: "ResponseWriter \<Rightarrow> Request \<Rightarrow> DB \<Rightarrow> ResponseWriter \<times> DB" where
  "getUserHandler w r db0 =
     (case dbConnection db0 of
        (Some err, db1) \<Rightarrow> (http_Error w ''Failed to connect to the database'' 500, db1)
      | (None, db1) \<Rightarrow>
          defer_Close (\<lambda>db.
            case parseID r of
              Inl err \<Rightarrow> (http_Error w ''Invalid user ID'' 400, db)
            | Inr userID \<Rightarrow>
                (case GetUser db userID of
                   (Inl err, db') \<Rightarrow> (http_Error w ''User not found'' 404, db')
                 | (Inr user, db') \<Rightarrow>
                     (Encode (marshal_User user)
                        (Header_Set ''Content-Type'' ''application/json'' w), db')))
          db1)"

definition updateUserHandler :: "ResponseWriter \<Rightarrow> Request \<Rightarrow> DB \<Rightarrow> ResponseWriter \<times> DB" where
  "updateUserHandler w r db0 =
     (case dbConnection db0 of
        (Some err, db1) \<Rightarrow> (http_Error w ''Failed to connect to the database'' 500, db1)
      | (None, db1) \<Rightarrow>
          defer_Close (\<lambda>db.
            case parseID r of
              Inl err \<Rightarrow> (http_Error w ''Invalid user ID'' 400, db)
            | Inr userID \<Rightarrow>
                (case Body_Decode r of
                   Inl err \<Rightarrow> (http_Error w ''Invalid input'' 400, db)
                 | Inr user \<Rightarrow>
                     (case Validate user of
                        Some msg \<Rightarrow> (http_Error w msg 400, db)
                      | None \<Rightarrow>
                          (case UpdateUser db userID (Name user) (Email user) of
                             (Some err, db') \<Rightarrow> (http_Error w ''Failed to update user'' 500, db')
                           | (None, db') \<Rightarrow> (Fprintln w ''User updated successfully'', db')))))
          db1)"

definition deleteUserHandler :: "ResponseWriter \<Rightarrow> Request \<Rightarrow> DB \<Rightarrow> ResponseWriter \<times> DB" where
  "deleteUserHandler w r db0 =
     (case dbConnection db0 of
        (Some err, db1) \<Rightarrow> (http_Error w ''Failed to connect to the database'' 500, db1)
      | (None, db1) \<Rightarrow>
          defer_Close (\<lambda>db.
            case parseID r of
              Inl err \<Rightarrow> (http_Error w ''Invalid user ID'' 400, db)
            | Inr userID \<Rightarrow>
                (case DeleteUser db userID of
                   (Some err, db') \<Rightarrow> (http_Error w ''Failed to delete user'' 500, db')
                 | (None, db') \<Rightarrow> (Fprintln w ''User deleted successfully'', db')))
          db1)"

section \<open>Notions used in the statements\<close>

text \<open>The words of \<open>A\<close> that start with \<open>c\<close>, without that first character.\<close>

definition left_quot :: "char \<Rightarrow> string set \<Rightarrow> string set" where
  "left_quot c A = {w. c # w \<in> A}"

text \<open>
  The shape of a string that the email pattern matches, spelled out: a non-empty local
  part, \<^verbatim>\<open>@\<close>, a non-empty domain, a dot, and two or more letters.
\<close>

definition email_shape :: "string \<Rightarrow> bool" where
  "email_shape s =
     (\<exists>l d t. s = l @ ''@'' @ d @ ''.'' @ t
        \<and> l \<noteq> [] \<and> list_all (in_class local_class) l
        \<and> d \<noteq> [] \<and> list_all (in_class domain_class) d
        \<and> 2 \<le> length t \<and> list_all (in_class letter_class) t)"

text \<open>The range of a 64-bit \<^verbatim>\<open>int\<close>.\<close>

definition fits_int :: "int \<Rightarrow> bool" where
  "fits_int v = (- (2 ^ 63) \<le> v \<and> v < 2 ^ 63)"

text \<open>A database that is up, holding the given rows, with an empty journal.\<close>

definition running :: "User list \<Rightarrow> DB" where
  "running us =
     \<lparr>users = us, auto_increment = 1 + foldr max (map ID us) 0, open_error = None,
      fault = (\<lambda>st. None), rows_break = None, journal = []\<rparr>"

text \<open>The database with further events in its journal.\<close>

definition logged :: "event list \<Rightarrow> DB \<Rightarrow> DB" where
  "logged evs db = db\<lparr>journal := journal db @ evs\<rparr>"

text \<open>A request for \<^verbatim>\<open>/user/{id}\<close> with the given path segment and decoded body.\<close>

definition request :: "string \<Rightarrow> string + User \<Rightarrow> Request" where
  "request seg b = \<lparr>vars = [''id'' \<mapsto> seg], Body_Decode = b\<rparr>"

section \<open>The matcher decides the language\<close>

lemma nil_in_conc: "[] \<in> conc A B \<longleftrightarrow> [] \<in> A \<and> [] \<in> B"
  by (auto simp: conc_def)

lemma conc_star_absorb: "[] \<in> A \<Longrightarrow> conc A (star A) = star A"
proof (intro set_eqI iffI)
  fix w assume "w \<in> conc A (star A)"
  then show "w \<in> star A" by (auto simp: conc_def intro: star.star_step)
next
  fix w assume "[] \<in> A" "w \<in> star A"
  then have "[] @ w \<in> conc A (star A)" unfolding conc_def by blast
  then show "w \<in> conc A (star A)" by simp
qed

lemma at_least_absorb: "[] \<in> A \<Longrightarrow> at_least n A = star A"
  by (induction n) (simp_all add: conc_star_absorb)

lemma nil_in_at_least: "[] \<in> at_least n A \<longleftrightarrow> n = 0 \<or> [] \<in> A"
  by (induction n) (auto simp: nil_in_conc star.star_empty)

lemma nullable_lang: "nullable r \<longleftrightarrow> [] \<in> lang r"
  by (induction r) (auto simp: nil_in_conc nil_in_at_least star.star_empty)

lemma quot_conc:
  "left_quot c (conc A B) = conc (left_quot c A) B \<union> (if [] \<in> A then left_quot c B else {})"
  by (auto simp: left_quot_def conc_def Cons_eq_append_conv)

lemma star_cons_split:
  "x \<in> star A \<Longrightarrow> x = c # w \<Longrightarrow> \<exists>u v. w = u @ v \<and> c # u \<in> A \<and> v \<in> star A"
proof (induction arbitrary: w rule: star.induct)
  case star_empty
  then show ?case by simp
next
  case (star_step u v)
  show ?case
  proof (cases u)
    case Nil
    with star_step show ?thesis by simp
  next
    case (Cons a u')
    with star_step.prems have "a = c" "w = u' @ v" by simp_all
    with Cons star_step.hyps show ?thesis by blast
  qed
qed

lemma quot_star: "left_quot c (star A) = conc (left_quot c A) (star A)"
proof (intro set_eqI iffI)
  fix w assume "w \<in> left_quot c (star A)"
  then have "c # w \<in> star A" by (simp add: left_quot_def)
  from star_cons_split [OF this refl]
  show "w \<in> conc (left_quot c A) (star A)" by (auto simp: conc_def left_quot_def)
next
  fix w assume "w \<in> conc (left_quot c A) (star A)"
  then obtain u v where "w = u @ v" "c # u \<in> A" "v \<in> star A"
    by (auto simp: conc_def left_quot_def)
  then have "(c # u) @ v \<in> star A" by (blast intro: star.star_step)
  with \<open>w = u @ v\<close> show "w \<in> left_quot c (star A)" by (simp add: left_quot_def)
qed

lemma quot_at_least:
  "left_quot c (at_least n A) = conc (left_quot c A) (at_least (n - 1) A)"
proof (cases n)
  case 0
  then show ?thesis by (simp add: quot_star)
next
  case (Suc m)
  show ?thesis
  proof (cases "[] \<in> A")
    case True
    then show ?thesis
      using Suc by (simp add: at_least_absorb conc_star_absorb quot_star)
  next
    case False
    then show ?thesis using Suc by (simp add: quot_conc)
  qed
qed

lemma lang_residual: "lang (residual c r) = left_quot c (lang r)"
proof (induction r)
  case (Seq r s)
  then show ?case by (simp add: quot_conc nullable_lang)
next
  case (AtLeast n r)
  then show ?case by (simp add: quot_at_least)
next
  case (Star r)
  then show ?case by (simp add: quot_star)
next
  case (Plus r)
  then show ?case by (simp add: quot_conc quot_star)
qed (auto simp: left_quot_def)

lemma MatchString_lang: "MatchString r s \<longleftrightarrow> s \<in> lang r"
  by (induction s arbitrary: r) (simp_all add: nullable_lang lang_residual left_quot_def)

section \<open>The strings the email pattern matches\<close>

lemma star_letters: "star {[c] | c. P c} = {w. list_all P w}"
proof (intro set_eqI iffI)
  fix w assume "w \<in> star {[c] | c. P c}"
  then show "w \<in> {w. list_all P w}"
    by (induction rule: star.induct) auto
next
  fix w assume "w \<in> {w. list_all P w}"
  then have "list_all P w" by simp
  then show "w \<in> star {[c] | c. P c}"
  proof (induction w)
    case Nil
    show ?case by (rule star.star_empty)
  next
    case (Cons c w)
    then have "[c] \<in> {[c] | c. P c}" "w \<in> star {[c] | c. P c}" by simp_all
    then have "[c] @ w \<in> star {[c] | c. P c}" by (rule star.star_step)
    then show ?case by simp
  qed
qed

lemma at_least_letters:
  "at_least n {[c] | c. P c} = {w. n \<le> length w \<and> list_all P w}"
proof (induction n)
  case 0
  show ?case by (simp add: star_letters)
next
  case (Suc n)
  show ?case
  proof (intro set_eqI iffI)
    fix w assume "w \<in> at_least (Suc n) {[c] | c. P c}"
    then show "w \<in> {w. Suc n \<le> length w \<and> list_all P w}"
      by (auto simp: Suc conc_def)
  next
    fix w assume "w \<in> {w. Suc n \<le> length w \<and> list_all P w}"
    then obtain c v where "w = c # v" "P c" "n \<le> length v" "list_all P v"
      by (cases w) auto
    then have "[c] \<in> {[c] | c. P c}" "v \<in> at_least n {[c] | c. P c}"
      by (simp_all add: Suc)
    then have "[c] @ v \<in> conc {[c] | c. P c} (at_least n {[c] | c. P c})"
      unfolding conc_def by blast
    with \<open>w = c # v\<close> show "w \<in> at_least (Suc n) {[c] | c. P c}" by simp
  qed
qed

lemma plus_letters:
  "conc {[c] | c. P c} (star {[c] | c. P c}) = {w. w \<noteq> [] \<and> list_all P w}"
proof -
  have "conc {[c] | c. P c} (star {[c] | c. P c}) = at_least (Suc 0) {[c] | c. P c}" by simp
  also have "\<dots> = {w. Suc 0 \<le> length w \<and> list_all P w}" by (rule at_least_letters)
  also have "\<dots> = {w. w \<noteq> [] \<and> list_all P w}"
    by (auto simp: Suc_le_eq)
  finally show ?thesis .
qed

lemma lang_email_pattern: "s \<in> lang email_pattern \<longleftrightarrow> email_shape s"
proof -
  have "lang email_pattern =
      conc {w. w \<noteq> [] \<and> list_all (in_class local_class) w}
        (conc {''@''} (conc {w. w \<noteq> [] \<and> list_all (in_class domain_class) w}
          (conc {''.''} {w. 2 \<le> length w \<and> list_all (in_class letter_class) w})))"
    by (simp add: email_pattern_def plus_letters at_least_letters)
  then show ?thesis
    unfolding email_shape_def conc_def
    by simp blast
qed

lemmas email_eval =
  isValidEmail_def email_pattern_def in_class_def in_range_def
  local_class_def domain_class_def letter_class_def

lemma isValidEmail_lang: "isValidEmail s \<longleftrightarrow> s \<in> lang email_pattern"
  by (simp add: isValidEmail_def MatchString_lang)

section \<open>What \<^verbatim>\<open>Atoi\<close> accepts\<close>

lemma foldl_digits_ge: "m \<le> foldl (\<lambda>n c. n * 10 + digit_val c) m ds"
proof (induction ds arbitrary: m)
  case Nil
  show ?case by simp
next
  case (Cons c ds)
  have "m \<le> m * 10 + digit_val c" by simp
  also have "\<dots> \<le> foldl (\<lambda>n c. n * 10 + digit_val c) (m * 10 + digit_val c) ds"
    by (rule Cons.IH)
  finally show ?case by simp
qed

lemma scan_digits_value:
  "list_all is_digit ds \<Longrightarrow> m \<le> maxUint64 \<Longrightarrow>
   scan_digits m ds =
     (if foldl (\<lambda>n c. n * 10 + digit_val c) m ds \<le> maxUint64
      then Inr (foldl (\<lambda>n c. n * 10 + digit_val c) m ds) else Inl ErrRange)"
proof (induction ds arbitrary: m)
  case Nil
  then show ?case by simp
next
  case (Cons c ds)
  let ?m' = "m * 10 + digit_val c"
  from Cons.prems have dig: "is_digit c" "list_all is_digit ds" by simp_all
  have ge: "?m' \<le> foldl (\<lambda>n c. n * 10 + digit_val c) ?m' ds" by (rule foldl_digits_ge)
  show ?case
  proof (cases "maxUint64 div 10 + 1 \<le> m \<or> maxUint64 < ?m'")
    case True
    then have "maxUint64 < ?m'" by (auto simp: maxUint64_def)
    with ge True dig show ?thesis by auto
  next
    case False
    then have "?m' \<le> maxUint64" by simp
    from Cons.IH [OF dig(2) this] False dig show ?thesis by simp
  qed
qed

lemma scan_digits_syntax:
  "\<not> list_all is_digit ds \<Longrightarrow> \<exists>e. scan_digits m ds = Inl e"
  by (induction ds arbitrary: m) auto

lemma ParseUint_value:
  "ds \<noteq> [] \<Longrightarrow> list_all is_digit ds \<Longrightarrow>
   ParseUint ds = (if dec_value ds \<le> maxUint64 then Inr (dec_value ds) else Inl ErrRange)"
  by (simp add: ParseUint_def dec_value_def scan_digits_value maxUint64_def)

lemma ParseUint_reject:
  "ds = [] \<or> \<not> list_all is_digit ds \<Longrightarrow> \<exists>e. ParseUint ds = Inl e"
  using scan_digits_syntax by (auto simp: ParseUint_def)

lemma not_digit_sign: "\<not> is_digit CHR ''+''" "\<not> is_digit CHR ''-''"
  by (simp_all add: is_digit_def in_range_def)

lemma Atoi_iff: "Atoi s = Inr v \<longleftrightarrow> signed_decimal s = Some v \<and> fits_int v"
proof (cases s)
  case Nil
  then show ?thesis by (simp add: Atoi_def ParseInt_def signed_decimal_def)
next
  case (Cons c t)
  define ds where "ds = (if c = CHR ''+'' \<or> c = CHR ''-'' then t else s)"
  show ?thesis
  proof (cases "ds \<noteq> [] \<and> list_all is_digit ds")
    case False
    then have "\<exists>e. ParseUint ds = Inl e" using ParseUint_reject by blast
    with False Cons show ?thesis
      by (auto simp: Atoi_def ParseInt_def signed_decimal_def ds_def Let_def)
  next
    case True
    then have pu: "ParseUint ds =
        (if dec_value ds \<le> maxUint64 then Inr (dec_value ds) else Inl ErrRange)"
      by (simp add: ParseUint_value)
    have big: "\<not> dec_value ds \<le> maxUint64 \<Longrightarrow> 2 ^ 63 < dec_value ds"
      by (simp add: maxUint64_def)
    from True Cons pu big show ?thesis
      unfolding Atoi_def ParseInt_def signed_decimal_def fits_int_def
      by (auto simp: ds_def Let_def maxUint64_def split: if_splits)
  qed
qed

section \<open>The handlers, path by path\<close>

lemmas http_defs =
  http_Error_def Fprintln_def Write_def WriteHeader_def Header_Set_def Encode_def
  status_code_def fresh_def

lemma http_Error_fresh:
  "status_code (http_Error fresh msg code) = code"
  "written (http_Error fresh msg code) = [Text (msg @ [CHR 0x0A])]"
  by (simp_all add: http_defs)

lemma Encode_fresh:
  "status_code (Encode j (Header_Set k v fresh)) = 200"
  "written (Encode j (Header_Set k v fresh)) = [Json j]"
  "Header (Encode j (Header_Set k v fresh)) k = Some v"
  by (simp_all add: http_defs)

lemma Fprintln_fresh:
  "status_code (Fprintln fresh msg) = 200"
  "written (Fprintln fresh msg) = [Text (msg @ [CHR 0x0A])]"
  "Header (Fprintln fresh msg) k = None"
  "status_code (Fprintln (WriteHeader code fresh) msg) = code"
  "written (Fprintln (WriteHeader code fresh) msg) = [Text (msg @ [CHR 0x0A])]"
  "Header (Fprintln (WriteHeader code fresh) msg) k = None"
  by (simp_all add: http_defs)

lemma scan_rows_append:
  "scan_rows rows acc =
     (if rows = [] then acc
      else Slice ((case acc of NilSlice \<Rightarrow> [] | Slice xs \<Rightarrow> xs) @ rows))"
proof (induction rows arbitrary: acc)
  case Nil
  show ?case by simp
next
  case (Cons row rows)
  show ?case by (cases acc) (simp_all add: Cons.IH)
qed

lemma GetAllUsers_run:
  "GetAllUsers db =
     (case fault db SelectAll of
        Some e \<Rightarrow> Inl (DriverError e)
      | None \<Rightarrow>
          (case rows_break db of
             Some (n, e) \<Rightarrow> Inl (DriverError e)
           | None \<Rightarrow> Inr (if users db = [] then NilSlice else Slice (users db))),
      logged [Ran SelectAll] db)"
  by (simp add: GetAllUsers_def Query_def scan_rows_append record_event_def logged_def
      split: option.splits)

lemma GetUser_run:
  "GetUser db i =
     (case fault db (SelectWhereId i) of
        Some e \<Rightarrow> Inl (DriverError e)
      | None \<Rightarrow>
          (case find (\<lambda>u. ID u = i) (users db) of None \<Rightarrow> Inl ErrNoRows | Some u \<Rightarrow> Inr u),
      logged [Ran (SelectWhereId i)] db)"
  by (simp add: GetUser_def QueryRow_Scan_def record_event_def logged_def split: option.splits)

lemma Exec_run:
  "Exec st db =
     (case fault db st of
        Some e \<Rightarrow> (Some (DriverError e), logged [Ran st] db)
      | None \<Rightarrow> (None, apply_stmt st (logged [Ran st] db)))"
  by (simp add: Exec_def record_event_def logged_def split: option.splits)

lemma logged_fields [simp]:
  "users (logged evs db) = users db"
  "auto_increment (logged evs db) = auto_increment db"
  "open_error (logged evs db) = open_error db"
  "fault (logged evs db) = fault db"
  "rows_break (logged evs db) = rows_break db"
  "journal (logged evs db) = journal db @ evs"
  "logged evs' (logged evs db) = logged (evs @ evs') db"
  by (simp_all add: logged_def)

lemma apply_stmt_fields [simp]:
  "journal (apply_stmt st db) = journal db"
  "open_error (apply_stmt st db) = open_error db"
  "fault (apply_stmt st db) = fault db"
  "rows_break (apply_stmt st db) = rows_break db"
  by (cases st; simp)+

lemma apply_stmt_logged: "logged evs (apply_stmt st db) = apply_stmt st (logged evs db)"
  by (cases st) (simp_all add: logged_def)

lemma dbConnection_run:
  "dbConnection db = (case open_error db of Some e \<Rightarrow> (Some e, db) | None \<Rightarrow> (None, logged [Opened] db))"
  by (simp add: dbConnection_def record_event_def logged_def split: option.splits)

lemma defer_Close_run: "defer_Close rest db = (fst (rest db), logged [Closed] (snd (rest db)))"
  by (simp add: defer_Close_def Close_def record_event_def logged_def split: prod.splits)

lemma getAllUsersHandler_run:
  "getAllUsersHandler w r db =
     (case open_error db of
        Some e \<Rightarrow> (http_Error w ''Failed to connect to the database'' 500, db)
      | None \<Rightarrow>
          (case fst (GetAllUsers db) of
             Inl e \<Rightarrow> http_Error w ''User not found'' 404
           | Inr us \<Rightarrow> Encode (marshal_Users us) (Header_Set ''Content-Type'' ''application/json'' w),
           logged [Opened, Ran SelectAll, Closed] db))"
  by (simp add: getAllUsersHandler_def dbConnection_run defer_Close_run GetAllUsers_run
      split: option.splits prod.splits)

lemma getUserHandler_run:
  "getUserHandler w r db =
     (case open_error db of
        Some e \<Rightarrow> (http_Error w ''Failed to connect to the database'' 500, db)
      | None \<Rightarrow>
          (case parseID r of
             Inl e \<Rightarrow> (http_Error w ''Invalid user ID'' 400, logged [Opened, Closed] db)
           | Inr i \<Rightarrow>
               (case fst (GetUser db i) of
                  Inl e \<Rightarrow> http_Error w ''User not found'' 404
                | Inr u \<Rightarrow> Encode (marshal_User u) (Header_Set ''Content-Type'' ''application/json'' w),
                logged [Opened, Ran (SelectWhereId i), Closed] db)))"
  by (simp add: getUserHandler_def dbConnection_run defer_Close_run GetUser_run
      split: option.splits prod.splits sum.splits)

lemma createUserHandler_run:
  "createUserHandler w r db =
     (case open_error db of
        Some e \<Rightarrow> (http_Error w ''Failed to connect to the database'' 500, db)
      | None \<Rightarrow>
          (case Body_Decode r of
             Inl e \<Rightarrow> (http_Error w ''Invalid input'' 400, logged [Opened, Closed] db)
           | Inr u \<Rightarrow>
               (case Validate u of
                  Some msg \<Rightarrow> (http_Error w msg 400, logged [Opened, Closed] db)
                | None \<Rightarrow>
                    (case fault db (Insert (Name u) (Email u)) of
                       Some e \<Rightarrow>
                         (http_Error w ''Failed to create user'' 500,
                          logged [Opened, Ran (Insert (Name u) (Email u)), Closed] db)
                     | None \<Rightarrow>
                         (Fprintln (WriteHeader 201 w) ''User created successfully'',
                          apply_stmt (Insert (Name u) (Email u))
                            (logged [Opened, Ran (Insert (Name u) (Email u)), Closed] db))))))"
  by (simp add: createUserHandler_def dbConnection_run defer_Close_run CreateUser_def Exec_run
      apply_stmt_logged
      split: option.splits prod.splits sum.splits)

lemma updateUserHandler_run:
  "updateUserHandler w r db =
     (case open_error db of
        Some e \<Rightarrow> (http_Error w ''Failed to connect to the database'' 500, db)
      | None \<Rightarrow>
          (case parseID r of
             Inl e \<Rightarrow> (http_Error w ''Invalid user ID'' 400, logged [Opened, Closed] db)
           | Inr i \<Rightarrow>
               (case Body_Decode r of
                  Inl e \<Rightarrow> (http_Error w ''Invalid input'' 400, logged [Opened, Closed] db)
                | Inr u \<Rightarrow>
                    (case Validate u of
                       Some msg \<Rightarrow> (http_Error w msg 400, logged [Opened, Closed] db)
                     | None \<Rightarrow>
                         (case fault db (UpdateWhereId (Name u) (Email u) i) of
                            Some e \<Rightarrow>
                              (http_Error w ''Failed to update user'' 500,
                               logged [Opened, Ran (UpdateWhereId (Name u) (Email u) i), Closed] db)
                          | None \<Rightarrow>
                              (Fprintln w ''User updated successfully'',
                               apply_stmt (UpdateWhereId (Name u) (Email u) i)
                                 (logged [Opened, Ran (UpdateWhereId (Name u) (Email u) i), Closed] db)))))))"
  by (simp add: updateUserHandler_def dbConnection_run defer_Close_run UpdateUser_def Exec_run
      apply_stmt_logged
      split: option.splits prod.splits sum.splits)

lemma deleteUserHandler_run:
  "deleteUserHandler w r db =
     (case open_error db of
        Some e \<Rightarrow> (http_Error w ''Failed to connect to the database'' 500, db)
      | None \<Rightarrow>
          (case parseID r of
             Inl e \<Rightarrow> (http_Error w ''Invalid user ID'' 400, logged [Opened, Closed] db)
           | Inr i \<Rightarrow>
               (case fault db (DeleteWhereId i) of
                  Some e \<Rightarrow>
                    (http_Error w ''Failed to delete user'' 500,
                     logged [Opened, Ran (DeleteWhereId i), Closed] db)
                | None \<Rightarrow>
                    (Fprintln w ''User deleted successfully'',
                     apply_stmt (DeleteWhereId i) (logged [Opened, Ran (DeleteWhereId i), Closed] db)))))"
  by (simp add: deleteUserHandler_def dbConnection_run defer_Close_run DeleteUser_def Exec_run
      apply_stmt_logged
      split: option.splits prod.splits sum.splits)

section \<open>Facts about rows, identifiers and journals\<close>

lemma find_ID_None: "find (\<lambda>u. ID u = i) us = None \<longleftrightarrow> i \<notin> ID ` set us"
  by (auto simp: find_None_iff)

lemma find_ID_Some: "find (\<lambda>u. ID u = i) us = Some u \<Longrightarrow> u \<in> set us \<and> ID u = i"
  by (auto simp: find_Some_iff)

lemma update_miss: "i \<notin> ID ` set us \<Longrightarrow> map (\<lambda>u. if ID u = i then f u else u) us = us"
  by (induction us) auto

lemma delete_miss: "i \<notin> ID ` set us \<Longrightarrow> filter (\<lambda>u. ID u \<noteq> i) us = us"
  by (induction us) auto

lemma parseID_request: "parseID (request s b) = Atoi s"
  by (simp add: parseID_def request_def)

lemmas Atoi_eval =
  Atoi_def ParseInt_def ParseUint_def is_digit_def in_range_def digit_val_def maxUint64_def

lemma map_ID_rewrite:
  "map ID (map (\<lambda>u. if ID u = i then u\<lparr>Name := n, Email := e\<rparr> else u) us) = map ID us"
  by (induction us) auto

lemma Validate_ID: "Validate (u\<lparr>ID := j\<rparr>) = Validate u"
  by (simp add: Validate_def)

lemma parseID_body: "parseID (r\<lparr>Body_Decode := b\<rparr>) = parseID r"
  by (simp add: parseID_def)

lemma updateUserHandler_users:
  "users (snd (updateUserHandler w r db)) = users db \<or>
   (\<exists>i n e. parseID r = Inr i \<and>
      users (snd (updateUserHandler w r db)) =
        map (\<lambda>u. if ID u = i then u\<lparr>Name := n, Email := e\<rparr> else u) (users db))"
  by (auto simp: updateUserHandler_run split: option.splits sum.splits)

lemma bracket:
  "evs = [Opened, Closed] \<or> (\<exists>st. evs = [Opened, Ran st, Closed]) \<Longrightarrow>
   \<exists>ss. length ss \<le> 1 \<and> evs = Opened # map Ran ss @ [Closed]"
proof (elim disjE exE)
  assume "evs = [Opened, Closed]"
  then have "length ([] :: stmt list) \<le> 1 \<and> evs = Opened # map Ran [] @ [Closed]" by simp
  then show ?thesis by blast
next
  fix st assume "evs = [Opened, Ran st, Closed]"
  then have "length [st] \<le> 1 \<and> evs = Opened # map Ran [st] @ [Closed]" by simp
  then show ?thesis by blast
qed

lemma handler_journal:
  "h \<in> {getAllUsersHandler, createUserHandler, getUserHandler, updateUserHandler,
         deleteUserHandler} \<Longrightarrow>
   (case open_error db of
      Some e \<Rightarrow> journal (snd (h w r db)) = journal db
    | None \<Rightarrow>
        (\<exists>evs. journal (snd (h w r db)) = journal db @ evs \<and>
           (evs = [Opened, Closed] \<or> (\<exists>st. evs = [Opened, Ran st, Closed]))))"
  by (auto simp: getAllUsersHandler_run createUserHandler_run getUserHandler_run
      updateUserHandler_run deleteUserHandler_run split: option.splits sum.splits)

section \<open>Validation: the claims\<close>

text \<open>
  C1. For every user, \<open>Validate\<close> fails when the name is empty, then when the email is
  empty, then when the email does not match the pattern
  \<^verbatim>\<open>^[a-zA-Z0-9._%+-]+@[a-zA-Z0-9.-]+\.[a-zA-Z]{2,}$\<close>, in that order, and succeeds otherwise,
  that is on every user with a non-empty name and a matching email. Matching is
  membership in the language of the pattern, which is the set of strings of the shape
  \<open>email_shape\<close>. It rejects \<^verbatim>\<open>not-an-email\<close> and \<^verbatim>\<open>a@b\<close> whatever the name, and accepts
  \<^verbatim>\<open>a@b.co\<close> with any non-empty name.
\<close>

theorem Validate_checks:
  "Validate u =
     (if Name u = [] then Some ''name is required''
      else if Email u = [] then Some ''email is required''
      else if Email u \<notin> lang email_pattern then Some ''invalid email format''
      else None)
   \<and> (Email u \<in> lang email_pattern \<longleftrightarrow> email_shape (Email u))
   \<and> Validate (u\<lparr>Email := ''not-an-email''\<rparr>) \<noteq> None
   \<and> Validate (u\<lparr>Email := ''a@b''\<rparr>) \<noteq> None
   \<and> (Name u \<noteq> [] \<longrightarrow> Validate (u\<lparr>Email := ''not-an-email''\<rparr>) = Some ''invalid email format'')
   \<and> (Name u \<noteq> [] \<longrightarrow> Validate (u\<lparr>Email := ''a@b''\<rparr>) = Some ''invalid email format'')
   \<and> (Name u \<noteq> [] \<longrightarrow> Validate (u\<lparr>Email := ''a@b.co''\<rparr>) = None)"
proof -
  have chain: "Validate u =
     (if Name u = [] then Some ''name is required''
      else if Email u = [] then Some ''email is required''
      else if Email u \<notin> lang email_pattern then Some ''invalid email format''
      else None)"
    by (simp add: Validate_def isValidEmail_lang)
  have shape: "Email u \<in> lang email_pattern \<longleftrightarrow> email_shape (Email u)"
    by (rule lang_email_pattern)
  have no1: "\<not> isValidEmail ''not-an-email''" by (simp add: email_eval)
  have no2: "\<not> isValidEmail ''a@b''" by (simp add: email_eval)
  have yes: "isValidEmail ''a@b.co''" by (simp add: email_eval)
  from chain shape no1 no2 yes show ?thesis by (simp add: Validate_def)
qed

theorem Validate_checks_witness:
  "Validate \<lparr>ID = 1, Name = ''Ann'', Email = ''a@b.co''\<rparr> = None
   \<and> Validate \<lparr>ID = 1, Name = ''Ann'', Email = ''a@b''\<rparr> = Some ''invalid email format''
   \<and> Validate \<lparr>ID = 1, Name = ''Ann'', Email = ''not-an-email''\<rparr> = Some ''invalid email format''"
  using Validate_checks [of "\<lparr>ID = 1, Name = ''Ann'', Email = ''ann@example.com''\<rparr>"]
  by simp

text \<open>
  C9. The email check accepts strings whose domain part starts with a dot or is made of
  dots only: \<open>isValidEmail\<close> is true of \<^verbatim>\<open>a@..co\<close> and of \<^verbatim>\<open>a@.b.co\<close>, and \<open>Validate\<close> accepts
  users with these emails.
\<close>

theorem dotted_domains_accepted:
  "isValidEmail ''a@..co'' \<and> isValidEmail ''a@.b.co''
   \<and> Validate \<lparr>ID = 0, Name = ''a'', Email = ''a@..co''\<rparr> = None
   \<and> Validate \<lparr>ID = 0, Name = ''a'', Email = ''a@.b.co''\<rparr> = None"
proof -
  have "isValidEmail ''a@..co''" by (simp add: email_eval)
  moreover have "isValidEmail ''a@.b.co''" by (simp add: email_eval)
  ultimately show ?thesis by (simp add: Validate_def)
qed

section \<open>Listing: the claims\<close>

text \<open>
  C2. When table \<^verbatim>\<open>users\<close> holds no rows and the query succeeds, \<open>GetAllUsers\<close> returns no
  error and a sequence of length 0, and the list handler answers 200 with a JSON document.
  The sequence is the nil slice, and the document the handler writes for it is \<^verbatim>\<open>null\<close>,
  not the empty array; for a table with rows it is the array of the users.
\<close>

theorem list_of_empty_table:
  "fault db SelectAll = None \<Longrightarrow> rows_break db = None \<Longrightarrow> open_error db = None \<Longrightarrow>
   fst (GetAllUsers db) = Inr (if users db = [] then NilSlice else Slice (users db))
   \<and> len (NilSlice :: User slice) = 0
   \<and> status_code (fst (getAllUsersHandler fresh r db)) = 200
   \<and> Header (fst (getAllUsersHandler fresh r db)) ''Content-Type'' = Some ''application/json''
   \<and> written (fst (getAllUsersHandler fresh r db)) =
       [Json (if users db = [] then JNull else JArray (map marshal_User (users db)))]"
  by (simp add: getAllUsersHandler_run GetAllUsers_run Encode_fresh)

theorem list_of_empty_table_witness:
  "fst (GetAllUsers (running [])) = Inr NilSlice
   \<and> status_code (fst (getAllUsersHandler fresh (request [] (Inl [])) (running []))) = 200
   \<and> written (fst (getAllUsersHandler fresh (request [] (Inl [])) (running []))) = [Json JNull]"
  using list_of_empty_table [of "running []" "request [] (Inl [])"]
  by (simp add: running_def)

section \<open>Reading one user: the claims\<close>

text \<open>
  C3. For an id that no row has, \<open>GetUser\<close> returns the no-rows error whenever the query
  itself runs, and a user it returns is always a stored row with the id asked for. The
  get handler answers 404 on every error of \<open>GetUser\<close>, and 200 with the JSON of the user
  on success; so a 200 means that a row with the parsed id exists and is the body.
\<close>

theorem missing_user_not_found:
  "(fault db (SelectWhereId i) = None \<and> i \<notin> ID ` set (users db) \<longrightarrow>
      fst (GetUser db i) = Inl ErrNoRows)
   \<and> (fst (GetUser db i) = Inr u \<longrightarrow> u \<in> set (users db) \<and> ID u = i)
   \<and> (open_error db = None \<and> parseID r = Inr i \<and> fst (GetUser (snd (dbConnection db)) i) = Inl e
        \<longrightarrow> status_code (fst (getUserHandler fresh r db)) = 404)
   \<and> (open_error db = None \<and> parseID r = Inr i \<and> fst (GetUser (snd (dbConnection db)) i) = Inr u
        \<longrightarrow> status_code (fst (getUserHandler fresh r db)) = 200
          \<and> written (fst (getUserHandler fresh r db)) = [Json (marshal_User u)])
   \<and> (status_code (fst (getUserHandler fresh r db)) = 200 \<longrightarrow>
        (\<exists>j v. parseID r = Inr j \<and> v \<in> set (users db) \<and> ID v = j
           \<and> written (fst (getUserHandler fresh r db)) = [Json (marshal_User v)]))"
proof -
  have a: "fault db (SelectWhereId i) = None \<and> i \<notin> ID ` set (users db) \<longrightarrow>
      fst (GetUser db i) = Inl ErrNoRows"
    using find_ID_None [of i "users db"] by (auto simp: GetUser_run split: option.splits)
  have b: "fst (GetUser db i) = Inr u \<longrightarrow> u \<in> set (users db) \<and> ID u = i"
    using find_ID_Some [of i "users db" u] by (auto simp: GetUser_run split: option.splits)
  have c: "open_error db = None \<and> parseID r = Inr i \<and> fst (GetUser (snd (dbConnection db)) i) = Inl e
        \<longrightarrow> status_code (fst (getUserHandler fresh r db)) = 404"
    by (auto simp: getUserHandler_run dbConnection_run GetUser_run http_Error_fresh
        split: option.splits)
  have d: "open_error db = None \<and> parseID r = Inr i \<and> fst (GetUser (snd (dbConnection db)) i) = Inr u
        \<longrightarrow> status_code (fst (getUserHandler fresh r db)) = 200
          \<and> written (fst (getUserHandler fresh r db)) = [Json (marshal_User u)]"
    by (auto simp: getUserHandler_run dbConnection_run GetUser_run Encode_fresh
        split: option.splits)
  have e: "status_code (fst (getUserHandler fresh r db)) = 200 \<longrightarrow>
        (\<exists>j v. parseID r = Inr j \<and> v \<in> set (users db) \<and> ID v = j
           \<and> written (fst (getUserHandler fresh r db)) = [Json (marshal_User v)])"
    by (auto simp: getUserHandler_run GetUser_run http_Error_fresh Encode_fresh
        dest: find_ID_Some split: option.splits sum.splits)
  from a b c d e show ?thesis by blast
qed

theorem missing_user_not_found_witness:
  "fst (GetUser (running [\<lparr>ID = 1, Name = ''Ann'', Email = ''ann@example.com''\<rparr>]) 2) = Inl ErrNoRows
   \<and> status_code (fst (getUserHandler fresh (request ''2'' (Inl []))
        (running [\<lparr>ID = 1, Name = ''Ann'', Email = ''ann@example.com''\<rparr>]))) = 404
   \<and> status_code (fst (getUserHandler fresh (request ''1'' (Inl []))
        (running [\<lparr>ID = 1, Name = ''Ann'', Email = ''ann@example.com''\<rparr>]))) = 200
   \<and> written (fst (getUserHandler fresh (request ''1'' (Inl []))
        (running [\<lparr>ID = 1, Name = ''Ann'', Email = ''ann@example.com''\<rparr>]))) =
       [Json (JObject [(''id'', JNumber 1), (''name'', JString ''Ann''),
                       (''email'', JString ''ann@example.com'')])]"
proof -
  let ?ann = "\<lparr>ID = 1, Name = ''Ann'', Email = ''ann@example.com''\<rparr>"
  have p2: "parseID (request ''2'' (Inl [])) = Inr 2"
    by (simp add: parseID_request Atoi_eval)
  have p1: "parseID (request ''1'' (Inl [])) = Inr 1"
    by (simp add: parseID_request Atoi_eval)
  have g2: "fst (GetUser (snd (dbConnection (running [?ann]))) 2) = Inl ErrNoRows"
    by (simp add: GetUser_run dbConnection_run running_def)
  have g1: "fst (GetUser (snd (dbConnection (running [?ann]))) 1) = Inr ?ann"
    by (simp add: GetUser_run dbConnection_run running_def)
  from missing_user_not_found [of "running [?ann]" 2 ?ann "request ''2'' (Inl [])" ErrNoRows]
    missing_user_not_found [of "running [?ann]" 1 ?ann "request ''1'' (Inl [])" ErrNoRows]
    p1 p2 g1 g2
  show ?thesis by (simp add: running_def marshal_User_def)
qed

section \<open>Updates and deletes that match nothing: the claims\<close>

text \<open>
  C4. \<open>UpdateUser\<close> and \<open>DeleteUser\<close> return no error whenever the statement runs, whether
  or not a row has the id, so a call that matched no row cannot be told from one that
  matched; and when no row has the id the table is left as it was.
\<close>

theorem update_delete_miss:
  "(fault db (UpdateWhereId n e i) = None \<longrightarrow> fst (UpdateUser db i n e) = None)
   \<and> (fault db (DeleteWhereId i) = None \<longrightarrow> fst (DeleteUser db i) = None)
   \<and> (i \<notin> ID ` set (users db) \<longrightarrow>
        users (snd (UpdateUser db i n e)) = users db
        \<and> auto_increment (snd (UpdateUser db i n e)) = auto_increment db
        \<and> users (snd (DeleteUser db i)) = users db
        \<and> auto_increment (snd (DeleteUser db i)) = auto_increment db)"
  by (auto simp: UpdateUser_def DeleteUser_def Exec_run update_miss delete_miss
      split: option.splits)

theorem update_delete_miss_witness:
  "fst (UpdateUser (running [\<lparr>ID = 1, Name = ''Ann'', Email = ''ann@example.com''\<rparr>]) 2 ''Bob'' ''bob@example.com'') = None
   \<and> users (snd (UpdateUser (running [\<lparr>ID = 1, Name = ''Ann'', Email = ''ann@example.com''\<rparr>]) 2 ''Bob'' ''bob@example.com''))
       = [\<lparr>ID = 1, Name = ''Ann'', Email = ''ann@example.com''\<rparr>]
   \<and> fst (UpdateUser (running [\<lparr>ID = 1, Name = ''Ann'', Email = ''ann@example.com''\<rparr>]) 1 ''Bob'' ''bob@example.com'') = None
   \<and> fst (DeleteUser (running [\<lparr>ID = 1, Name = ''Ann'', Email = ''ann@example.com''\<rparr>]) 2) = None
   \<and> users (snd (DeleteUser (running [\<lparr>ID = 1, Name = ''Ann'', Email = ''ann@example.com''\<rparr>]) 2))
       = [\<lparr>ID = 1, Name = ''Ann'', Email = ''ann@example.com''\<rparr>]
   \<and> fst (DeleteUser (running [\<lparr>ID = 1, Name = ''Ann'', Email = ''ann@example.com''\<rparr>]) 1) = None"
  using update_delete_miss [of "running [\<lparr>ID = 1, Name = ''Ann'', Email = ''ann@example.com''\<rparr>]"
      "''Bob''" "''bob@example.com''" 2]
    update_delete_miss [of "running [\<lparr>ID = 1, Name = ''Ann'', Email = ''ann@example.com''\<rparr>]"
      "''Bob''" "''bob@example.com''" 1]
  by (simp add: running_def)

section \<open>Path ids that do not parse: the claims\<close>

text \<open>
  C5. When the id segment of the path does not parse as an integer (\<^verbatim>\<open>abc\<close>, or no segment
  at all), the get, update and delete handlers, once \<^verbatim>\<open>dbConnection\<close> has returned a
  handle, answer 400 with the message \<^verbatim>\<open>Invalid user ID\<close>; no statement is sent to the
  store on the way (the journal gains the opening and the closing of the handle at
  most) and the table is unchanged.
\<close>

theorem bad_id_rejected:
  "parseID r = Inl err \<Longrightarrow>
   h \<in> {getUserHandler, updateUserHandler, deleteUserHandler} \<Longrightarrow>
   (open_error db = None \<longrightarrow>
      status_code (fst (h fresh r db)) = 400
      \<and> written (fst (h fresh r db)) = [Text (''Invalid user ID'' @ [CHR 0x0A])])
   \<and> users (snd (h fresh r db)) = users db
   \<and> journal (snd (h fresh r db)) =
       journal db @ (if open_error db = None then [Opened, Closed] else [])"
  by (auto simp: getUserHandler_run updateUserHandler_run deleteUserHandler_run http_Error_fresh
      split: option.splits)

theorem bad_id_rejected_witness:
  "parseID (request ''abc'' (Inl [])) = Inl ErrSyntax
   \<and> parseID \<lparr>vars = Map.empty, Body_Decode = Inl []\<rparr> = Inl ErrSyntax
   \<and> status_code (fst (getUserHandler fresh (request ''abc'' (Inl [])) (running []))) = 400
   \<and> journal (snd (getUserHandler fresh (request ''abc'' (Inl [])) (running []))) = [Opened, Closed]
   \<and> status_code (fst (updateUserHandler fresh (request ''abc'' (Inl [])) (running []))) = 400
   \<and> journal (snd (updateUserHandler fresh (request ''abc'' (Inl [])) (running []))) = [Opened, Closed]
   \<and> status_code (fst (deleteUserHandler fresh (request ''abc'' (Inl [])) (running []))) = 400
   \<and> journal (snd (deleteUserHandler fresh (request ''abc'' (Inl [])) (running []))) = [Opened, Closed]"
proof -
  have p: "parseID (request ''abc'' (Inl [])) = Inl ErrSyntax"
    by (simp add: parseID_request Atoi_eval)
  have q: "parseID \<lparr>vars = Map.empty, Body_Decode = Inl []\<rparr> = Inl ErrSyntax"
    by (simp add: parseID_def Atoi_def ParseInt_def)
  from p q
    bad_id_rejected [OF p, of getUserHandler "running []"]
    bad_id_rejected [OF p, of updateUserHandler "running []"]
    bad_id_rejected [OF p, of deleteUserHandler "running []"]
  show ?thesis by (simp add: running_def)
qed

section \<open>Responses of create and update: the claims\<close>

text \<open>
  C6. With a handle, a decoded and valid body (and, for update, a parsed id): when the
  insert succeeds the create handler answers 201 with the plain-text line
  \<^verbatim>\<open>User created successfully\<close>; when the update succeeds the update handler answers with
  the default status 200 and the plain-text line \<^verbatim>\<open>User updated successfully\<close>; and any
  error of the insert or of the update gives 500. On the success paths the handler sets
  no content type of its own, so the body goes out as the text it is.
\<close>

theorem create_update_responses:
  "open_error db = None \<Longrightarrow> Body_Decode r = Inr u \<Longrightarrow> Validate u = None \<Longrightarrow>
   (fst (CreateUser (snd (dbConnection db)) (Name u) (Email u)) = None \<longrightarrow>
      status_code (fst (createUserHandler fresh r db)) = 201
      \<and> written (fst (createUserHandler fresh r db)) =
          [Text (''User created successfully'' @ [CHR 0x0A])]
      \<and> Header (fst (createUserHandler fresh r db)) ''Content-Type'' = None)
   \<and> (fst (CreateUser (snd (dbConnection db)) (Name u) (Email u)) = Some e \<longrightarrow>
      status_code (fst (createUserHandler fresh r db)) = 500)
   \<and> (parseID r = Inr i \<and> fst (UpdateUser (snd (dbConnection db)) i (Name u) (Email u)) = None \<longrightarrow>
      status_code (fst (updateUserHandler fresh r db)) = 200
      \<and> written (fst (updateUserHandler fresh r db)) =
          [Text (''User updated successfully'' @ [CHR 0x0A])]
      \<and> Header (fst (updateUserHandler fresh r db)) ''Content-Type'' = None)
   \<and> (parseID r = Inr i \<and> fst (UpdateUser (snd (dbConnection db)) i (Name u) (Email u)) = Some e \<longrightarrow>
      status_code (fst (updateUserHandler fresh r db)) = 500)"
  by (auto simp: createUserHandler_run updateUserHandler_run dbConnection_run CreateUser_def
      UpdateUser_def Exec_run http_Error_fresh Fprintln_fresh split: option.splits)

theorem create_update_responses_witness:
  "status_code (fst (createUserHandler fresh
      (request ''1'' (Inr \<lparr>ID = 0, Name = ''Ann'', Email = ''ann@example.com''\<rparr>)) (running []))) = 201
   \<and> status_code (fst (updateUserHandler fresh
      (request ''1'' (Inr \<lparr>ID = 0, Name = ''Ann'', Email = ''ann@example.com''\<rparr>)) (running []))) = 200
   \<and> status_code (fst (createUserHandler fresh
      (request ''1'' (Inr \<lparr>ID = 0, Name = ''Ann'', Email = ''ann@example.com''\<rparr>))
      ((running [])\<lparr>fault := \<lambda>st. Some ''server has gone away''\<rparr>))) = 500
   \<and> status_code (fst (updateUserHandler fresh
      (request ''1'' (Inr \<lparr>ID = 0, Name = ''Ann'', Email = ''ann@example.com''\<rparr>))
      ((running [])\<lparr>fault := \<lambda>st. Some ''server has gone away''\<rparr>))) = 500"
proof -
  let ?ann = "\<lparr>ID = 0, Name = ''Ann'', Email = ''ann@example.com''\<rparr>"
  let ?r = "request ''1'' (Inr ?ann)"
  let ?down = "(running [])\<lparr>fault := \<lambda>st. Some ''server has gone away''\<rparr>"
  have v: "Validate ?ann = None" by (simp add: Validate_def email_eval)
  have b: "Body_Decode ?r = Inr ?ann" by (simp add: request_def)
  have p: "parseID ?r = Inr 1" by (simp add: parseID_request Atoi_eval)
  have up: "open_error (running []) = None" "open_error ?down = None"
    by (simp_all add: running_def)
  have c1: "fst (CreateUser (snd (dbConnection (running []))) (Name ?ann) (Email ?ann)) = None"
    by (simp add: CreateUser_def Exec_run dbConnection_run running_def)
  have u1: "fst (UpdateUser (snd (dbConnection (running []))) 1 (Name ?ann) (Email ?ann)) = None"
    by (simp add: UpdateUser_def Exec_run dbConnection_run running_def)
  have c2: "fst (CreateUser (snd (dbConnection ?down)) (Name ?ann) (Email ?ann)) =
      Some (DriverError ''server has gone away'')"
    by (simp add: CreateUser_def Exec_run dbConnection_run running_def)
  have u2: "fst (UpdateUser (snd (dbConnection ?down)) 1 (Name ?ann) (Email ?ann)) =
      Some (DriverError ''server has gone away'')"
    by (simp add: UpdateUser_def Exec_run dbConnection_run running_def)
  from create_update_responses [OF up(1) b v, of "DriverError ''server has gone away''" 1]
    create_update_responses [OF up(2) b v, of "DriverError ''server has gone away''" 1]
    p c1 u1 c2 u2
  show ?thesis by simp
qed

section \<open>What an update may change: the claims\<close>

text \<open>
  C7. Whatever the request and the database, after the update handler the table has the
  same ids in the same places, every row whose id is not the parsed path id is
  unchanged, and the counter for new ids is unchanged; the table \<open>UpdateUser\<close> leaves is
  either the old one or the old one with name and email replaced in the rows that have
  the id. The id field of the decoded body has no effect at all: two requests that
  differ only there give the same response and the same database.
\<close>

theorem update_frame:
  "map ID (users (snd (updateUserHandler w r db))) = map ID (users db)
   \<and> (\<forall>k < length (users db). parseID r \<noteq> Inr (ID (users db ! k)) \<longrightarrow>
        users (snd (updateUserHandler w r db)) ! k = users db ! k)
   \<and> auto_increment (snd (updateUserHandler w r db)) = auto_increment db
   \<and> updateUserHandler w (r\<lparr>Body_Decode := Inr (u\<lparr>ID := j\<rparr>)\<rparr>) db =
       updateUserHandler w (r\<lparr>Body_Decode := Inr u\<rparr>) db
   \<and> users (snd (UpdateUser db i n e)) \<in>
       {users db, map (\<lambda>v. if ID v = i then v\<lparr>Name := n, Email := e\<rparr> else v) (users db)}"
proof -
  have ids: "map ID (users (snd (updateUserHandler w r db))) = map ID (users db)"
    using updateUserHandler_users [of w r db] by (auto simp: map_ID_rewrite)
  have others: "\<forall>k < length (users db). parseID r \<noteq> Inr (ID (users db ! k)) \<longrightarrow>
        users (snd (updateUserHandler w r db)) ! k = users db ! k"
    using updateUserHandler_users [of w r db] by auto
  have counter: "auto_increment (snd (updateUserHandler w r db)) = auto_increment db"
    by (auto simp: updateUserHandler_run split: option.splits sum.splits)
  have body_id: "updateUserHandler w (r\<lparr>Body_Decode := Inr (u\<lparr>ID := j\<rparr>)\<rparr>) db =
       updateUserHandler w (r\<lparr>Body_Decode := Inr u\<rparr>) db"
    by (simp add: updateUserHandler_run parseID_body Validate_ID
        split: option.splits sum.splits)
  have dal: "users (snd (UpdateUser db i n e)) \<in>
       {users db, map (\<lambda>v. if ID v = i then v\<lparr>Name := n, Email := e\<rparr> else v) (users db)}"
    by (auto simp: UpdateUser_def Exec_run split: option.splits)
  from ids others counter body_id dal show ?thesis by blast
qed

theorem update_frame_witness:
  "users (snd (updateUserHandler fresh
      (request ''2'' (Inr \<lparr>ID = 1, Name = ''Bea'', Email = ''bea@example.org''\<rparr>))
      (running [\<lparr>ID = 1, Name = ''Ann'', Email = ''ann@example.com''\<rparr>,
                \<lparr>ID = 2, Name = ''Bob'', Email = ''bob@example.com''\<rparr>]))) ! 0
     = \<lparr>ID = 1, Name = ''Ann'', Email = ''ann@example.com''\<rparr>
   \<and> map ID (users (snd (updateUserHandler fresh
      (request ''2'' (Inr \<lparr>ID = 1, Name = ''Bea'', Email = ''bea@example.org''\<rparr>))
      (running [\<lparr>ID = 1, Name = ''Ann'', Email = ''ann@example.com''\<rparr>,
                \<lparr>ID = 2, Name = ''Bob'', Email = ''bob@example.com''\<rparr>])))) = [1, 2]
   \<and> users (snd (updateUserHandler fresh
      (request ''2'' (Inr \<lparr>ID = 1, Name = ''Bea'', Email = ''bea@example.org''\<rparr>))
      (running [\<lparr>ID = 1, Name = ''Ann'', Email = ''ann@example.com''\<rparr>,
                \<lparr>ID = 2, Name = ''Bob'', Email = ''bob@example.com''\<rparr>]))) ! 1
     = \<lparr>ID = 2, Name = ''Bea'', Email = ''bea@example.org''\<rparr>"
proof -
  let ?bea = "\<lparr>ID = 1, Name = ''Bea'', Email = ''bea@example.org''\<rparr>"
  let ?r = "request ''2'' (Inr ?bea)"
  let ?db = "running [\<lparr>ID = 1, Name = ''Ann'', Email = ''ann@example.com''\<rparr>,
                \<lparr>ID = 2, Name = ''Bob'', Email = ''bob@example.com''\<rparr>]"
  have p: "parseID ?r = Inr 2" by (simp add: parseID_request Atoi_eval)
  have us: "users ?db = [\<lparr>ID = 1, Name = ''Ann'', Email = ''ann@example.com''\<rparr>,
                \<lparr>ID = 2, Name = ''Bob'', Email = ''bob@example.com''\<rparr>]"
    by (simp add: running_def)
  have v: "Validate ?bea = None" by (simp add: Validate_def email_eval)
  have b: "Body_Decode ?r = Inr ?bea" by (simp add: request_def)
  have up: "open_error ?db = None" "fault ?db = (\<lambda>st. None)" by (simp_all add: running_def)
  have row: "users (snd (updateUserHandler fresh ?r ?db)) ! 1 =
      \<lparr>ID = 2, Name = ''Bea'', Email = ''bea@example.org''\<rparr>"
    by (simp add: updateUserHandler_run p v b up us)
  from update_frame [of fresh ?r ?db] p us row show ?thesis by simp
qed

section \<open>Closing the handle: the claims\<close>

text \<open>
  C8. For each of the five handlers and on every path through it: when \<^verbatim>\<open>dbConnection\<close>
  returned a handle, what the handler adds to the journal starts with the opening of
  the handle and ends with its closing, with at most one statement between; when
  \<^verbatim>\<open>dbConnection\<close> failed, no handle was opened and the journal is unchanged.
\<close>

theorem connection_released:
  "h \<in> {getAllUsersHandler, createUserHandler, getUserHandler, updateUserHandler,
         deleteUserHandler} \<Longrightarrow>
   \<exists>ss. length ss \<le> 1 \<and>
     journal (snd (h w r db)) =
       journal db @ (if open_error db = None then Opened # map Ran ss @ [Closed] else [])"
proof (cases "open_error db")
  case None
  assume "h \<in> {getAllUsersHandler, createUserHandler, getUserHandler, updateUserHandler,
         deleteUserHandler}"
  from handler_journal [OF this, where db = db and w = w and r = r] None
  obtain evs where j: "journal (snd (h w r db)) = journal db @ evs"
    and "evs = [Opened, Closed] \<or> (\<exists>st. evs = [Opened, Ran st, Closed])"
    by auto
  from bracket [OF this(2)] obtain ss
    where "length ss \<le> 1" "evs = Opened # map Ran ss @ [Closed]" by blast
  with j None show ?thesis by auto
next
  case (Some e)
  assume "h \<in> {getAllUsersHandler, createUserHandler, getUserHandler, updateUserHandler,
         deleteUserHandler}"
  from handler_journal [OF this, where db = db and w = w and r = r] Some
  have "journal (snd (h w r db)) = journal db" by simp
  with Some have "length ([] :: stmt list) \<le> 1 \<and> journal (snd (h w r db)) =
       journal db @ (if open_error db = None then Opened # map Ran [] @ [Closed] else [])"
    by simp
  then show ?thesis by blast
qed

theorem connection_released_witness:
  "(\<exists>ss. length ss \<le> 1 \<and>
      journal (snd (createUserHandler fresh
        (request [] (Inr \<lparr>ID = 0, Name = [], Email = ''ann@example.com''\<rparr>)) (running []))) =
      Opened # map Ran ss @ [Closed])
   \<and> (\<exists>ss. length ss \<le> 1 \<and>
      journal (snd (deleteUserHandler fresh (request ''7'' (Inl []))
        ((running [])\<lparr>fault := \<lambda>st. Some ''server has gone away''\<rparr>))) =
      Opened # map Ran ss @ [Closed])
   \<and> (\<exists>ss. length ss \<le> 1 \<and>
      journal (snd (getAllUsersHandler fresh (request [] (Inl [])) (running []))) =
      Opened # map Ran ss @ [Closed])
   \<and> journal (snd (getUserHandler fresh (request ''7'' (Inl []))
        ((running [])\<lparr>open_error := Some ''unknown driver''\<rparr>))) = []"
  using connection_released [of createUserHandler fresh
      "request [] (Inr \<lparr>ID = 0, Name = [], Email = ''ann@example.com''\<rparr>)" "running []"]
    connection_released [of deleteUserHandler fresh "request ''7'' (Inl [])"
      "(running [])\<lparr>fault := \<lambda>st. Some ''server has gone away''\<rparr>"]
    connection_released [of getAllUsersHandler fresh "request [] (Inl [])" "running []"]
    connection_released [of getUserHandler fresh "request ''7'' (Inl [])"
      "(running [])\<lparr>open_error := Some ''unknown driver''\<rparr>"]
  by (simp add: running_def)

section \<open>Signed path ids: the claims\<close>

text \<open>
  C10, as stated, fails: \<^verbatim>\<open>9223372036854775808\<close> is a signed decimal integer, and \<open>parseID\<close>
  rejects it with a range error, so that the get handler answers 400 without sending a
  statement.
\<close>

theorem huge_id_rejected:
  "signed_decimal ''9223372036854775808'' = Some 9223372036854775808
   \<and> parseID (request ''9223372036854775808'' (Inl [])) = Inl ErrRange
   \<and> status_code (fst (getUserHandler fresh (request ''9223372036854775808'' (Inl []))
        (running []))) = 400
   \<and> journal (snd (getUserHandler fresh (request ''9223372036854775808'' (Inl []))
        (running []))) = [Opened, Closed]"
proof -
  have p: "parseID (request ''9223372036854775808'' (Inl [])) = Inl ErrRange"
    by (simp add: parseID_request Atoi_eval)
  have s: "signed_decimal ''9223372036854775808'' = Some 9223372036854775808"
    by (simp add: signed_decimal_def dec_value_def is_digit_def in_range_def digit_val_def)
  from p s show ?thesis
    by (simp add: getUserHandler_run http_Error_fresh running_def)
qed

text \<open>
  C10, amended. \<open>parseID\<close> accepts exactly the signed decimal integers that fit a 64-bit
  \<^verbatim>\<open>int\<close>, zero and negatives included (\<^verbatim>\<open>-5\<close>, \<^verbatim>\<open>+7\<close>, \<^verbatim>\<open>0\<close>). A get, update or delete
  request with such an id is not answered 400 for its id, and with a handle the get and
  the delete handler send their statement with that integer, as does the update handler
  once the body is decoded and valid.
\<close>

theorem signed_ids_accepted:
  "vars r ''id'' = Some s \<Longrightarrow>
   (parseID r = Inr v \<longleftrightarrow> signed_decimal s = Some v \<and> fits_int v)
   \<and> (signed_decimal s = Some v \<and> fits_int v \<longrightarrow>
        status_code (fst (getUserHandler fresh r db)) \<noteq> 400
        \<and> status_code (fst (deleteUserHandler fresh r db)) \<noteq> 400
        \<and> written (fst (updateUserHandler fresh r db)) \<noteq> [Text (''Invalid user ID'' @ [CHR 0x0A])]
        \<and> (open_error db = None \<longrightarrow>
             journal (snd (getUserHandler w r db)) =
               journal db @ [Opened, Ran (SelectWhereId v), Closed]
             \<and> journal (snd (deleteUserHandler w r db)) =
               journal db @ [Opened, Ran (DeleteWhereId v), Closed]
             \<and> (Body_Decode r = Inr u \<and> Validate u = None \<longrightarrow>
                  journal (snd (updateUserHandler w r db)) =
                    journal db @ [Opened, Ran (UpdateWhereId (Name u) (Email u) v), Closed])))"
proof -
  assume seg: "vars r ''id'' = Some s"
  then have p: "parseID r = Atoi s" by (simp add: parseID_def)
  have iff: "parseID r = Inr v \<longleftrightarrow> signed_decimal s = Some v \<and> fits_int v"
    by (simp add: p Atoi_iff)
  have go: "status_code (fst (getUserHandler fresh r db)) \<noteq> 400
        \<and> status_code (fst (deleteUserHandler fresh r db)) \<noteq> 400
        \<and> written (fst (updateUserHandler fresh r db)) \<noteq> [Text (''Invalid user ID'' @ [CHR 0x0A])]
        \<and> (open_error db = None \<longrightarrow>
             journal (snd (getUserHandler w r db)) =
               journal db @ [Opened, Ran (SelectWhereId v), Closed]
             \<and> journal (snd (deleteUserHandler w r db)) =
               journal db @ [Opened, Ran (DeleteWhereId v), Closed]
             \<and> (Body_Decode r = Inr u \<and> Validate u = None \<longrightarrow>
                  journal (snd (updateUserHandler w r db)) =
                    journal db @ [Opened, Ran (UpdateWhereId (Name u) (Email u) v), Closed]))"
    if "parseID r = Inr v"
    using that
    by (auto simp: getUserHandler_run deleteUserHandler_run updateUserHandler_run
        http_Error_fresh Encode_fresh Fprintln_fresh Validate_def
        split: option.splits sum.splits if_splits)
  from iff go show ?thesis by blast
qed

theorem signed_ids_accepted_witness:
  "parseID (request ''-5'' (Inl [])) = Inr (- 5)
   \<and> parseID (request ''+7'' (Inl [])) = Inr 7
   \<and> parseID (request ''0'' (Inr \<lparr>ID = 3, Name = ''Ann'', Email = ''ann@example.com''\<rparr>)) = Inr 0
   \<and> journal (snd (getUserHandler fresh (request ''-5'' (Inl [])) (running []))) =
       [Opened, Ran (SelectWhereId (- 5)), Closed]
   \<and> journal (snd (deleteUserHandler fresh (request ''+7'' (Inl [])) (running []))) =
       [Opened, Ran (DeleteWhereId 7), Closed]
   \<and> journal (snd (updateUserHandler fresh
        (request ''0'' (Inr \<lparr>ID = 3, Name = ''Ann'', Email = ''ann@example.com''\<rparr>)) (running []))) =
       [Opened, Ran (UpdateWhereId ''Ann'' ''ann@example.com'' 0), Closed]"
proof -
  let ?ann = "\<lparr>ID = 3, Name = ''Ann'', Email = ''ann@example.com''\<rparr>"
  have s: "signed_decimal ''-5'' = Some (- 5)" "signed_decimal ''+7'' = Some 7"
    "signed_decimal ''0'' = Some 0"
    by (simp_all add: signed_decimal_def dec_value_def is_digit_def in_range_def digit_val_def)
  have f: "fits_int (- 5)" "fits_int 7" "fits_int 0" by (simp_all add: fits_int_def)
  have v: "Validate ?ann = None" by (simp add: Validate_def email_eval)
  have o: "open_error (running []) = None" by (simp add: running_def)
  have j: "journal (running []) = []" by (simp add: running_def)
  have i: "vars (request seg b) ''id'' = Some seg" "Body_Decode (request seg b) = b" for seg b
    by (simp_all add: request_def)
  from signed_ids_accepted [OF i(1) [of "''-5''" "Inl []"], where v = "- 5" and db = "running []"
      and w = fresh and u = ?ann]
    signed_ids_accepted [OF i(1) [of "''+7''" "Inl []"], where v = 7 and db = "running []"
      and w = fresh and u = ?ann]
    signed_ids_accepted [OF i(1) [of "''0''" "Inr ?ann"], where v = 0 and db = "running []"
      and w = fresh and u = ?ann]
    s f v o j i(2)
  show ?thesis by simp
qed

end
